theory Spec2Isabelle
  imports Main "HOL-Library.Word" "HOL-Library.Sublist"
begin

section \<open>The configuration of sched-analyzer (parse\_argp.c)\<close>

subsection \<open>Data model\<close>

text \<open>
  \<^verbatim>\<open>struct sa_opts\<close> is declared in \<^verbatim>\<open>parse_argp.h\<close>; the fields are those that
  \<^verbatim>\<open>parse_argp.c\<close> initialises and assigns. \<^verbatim>\<open>max_size\<close> holds the \<^verbatim>\<open>long\<close> that
  \<^verbatim>\<open>strtol(...) * 1024\<close> computes (64 bits on the LP64 targets of the tool), \<^verbatim>\<open>pid\<close> is a
  \<^verbatim>\<open>pid_t\<close> (32 bits), the field \<^verbatim>\<open>output\<close> is \<open>output_file\<close> here,
  \<^verbatim>\<open>output_path\<close> is a pointer that may be \<^verbatim>\<open>NULL\<close>, and \<^verbatim>\<open>comm\<close> is a
  character array of \<^verbatim>\<open>TASK_COMM_LEN\<close> bytes.
\<close>

record sa_opts =
  system :: bool
  app :: bool
  output_file :: string
  output_path :: "string option"
  max_size :: "64 word"
  load_avg_cpu :: bool
  load_avg_task :: bool
  runnable_avg_cpu :: bool
  runnable_avg_task :: bool
  util_avg_cpu :: bool
  util_avg_task :: bool
  util_avg_rt :: bool
  util_avg_dl :: bool
  util_avg_irq :: bool
  util_avg_thermal :: bool
  util_est_cpu :: bool
  util_est_task :: bool
  cpu_nr_running :: bool
  cpu_freq :: bool
  cpu_idle :: bool
  softirq :: bool
  sched_switch :: bool
  load_balance :: bool
  pid :: "32 word"
  comm :: string

definition NUL :: char where
  "NUL = CHR 0x00"

text \<open>
  The initial value of the global \<^verbatim>\<open>sa_opts\<close>. \<^verbatim>\<open>TASK_COMM_LEN\<close> comes from a header that is
  not part of the sources, so the length of the \<^verbatim>\<open>comm\<close> array is the parameter \<open>len\<close>.
  The four fields \<^verbatim>\<open>load_avg_cpu\<close>, \<^verbatim>\<open>load_avg_task\<close>, \<^verbatim>\<open>runnable_avg_cpu\<close> and
  \<^verbatim>\<open>runnable_avg_task\<close> have no initialiser and are therefore zero, and \<^verbatim>\<open>{ 0 }\<close> zeroes
  the whole array.
\<close>

definition sa_opts_init :: "nat \<Rightarrow> sa_opts" where
  "sa_opts_init len =
     \<lparr> system = True,
       app = False,
       output_file = ''sched-analyzer.perfetto-trace'',
       output_path = None,
       max_size = 250 * 1024 * 1024,
       load_avg_cpu = False,
       load_avg_task = False,
       runnable_avg_cpu = False,
       runnable_avg_task = False,
       util_avg_cpu = False,
       util_avg_task = False,
       util_avg_rt = False,
       util_avg_dl = False,
       util_avg_irq = False,
       util_avg_thermal = False,
       util_est_cpu = False,
       util_est_task = False,
       cpu_nr_running = False,
       cpu_freq = False,
       cpu_idle = False,
       softirq = False,
       sched_switch = False,
       load_balance = False,
       pid = 0,
       comm = replicate len NUL \<rparr>"

datatype sa_opts_flags =
    OPT_DUMMY_START
  | OPT_SYSTEM
  | OPT_APP
  | OPT_OUTPUT
  | OPT_OUTPUT_PATH
  | OPT_MAX_SIZE
  | OPT_LOAD_AVG
  | OPT_RUNNABLE_AVG
  | OPT_UTIL_AVG
  | OPT_LOAD_AVG_CPU
  | OPT_RUNNABLE_AVG_CPU
  | OPT_UTIL_AVG_CPU
  | OPT_LOAD_AVG_TASK
  | OPT_RUNNABLE_AVG_TASK
  | OPT_UTIL_AVG_TASK
  | OPT_UTIL_AVG_RT
  | OPT_UTIL_AVG_DL
  | OPT_UTIL_AVG_IRQ
  | OPT_UTIL_AVG_THERMAL
  | OPT_UTIL_EST
  | OPT_UTIL_EST_CPU
  | OPT_UTIL_EST_TASK
  | OPT_CPU_NR_RUNNING
  | OPT_LOAD_BALANCE
  | OPT_FILTER_PID
  | OPT_FILTER_COMM

text \<open>
  The \<^verbatim>\<open>key\<close> that argp hands to the parser: the key of an entry of \<^verbatim>\<open>options\<close>, one of the
  two special keys the \<^verbatim>\<open>switch\<close> names, or any other special key of argp.
\<close>

datatype argp_key =
    Opt sa_opts_flags
  | ARGP_KEY_ARG
  | ARGP_KEY_END
  | ARGP_KEY_OTHER

text \<open>
  The table \<^verbatim>\<open>options\<close>: long name, key, and the name of the argument when the option
  takes one.
\<close>

definition options :: "(string \<times> sa_opts_flags \<times> string option) list" where
  "options =
     [ (''system'', OPT_SYSTEM, None),
       (''app'', OPT_APP, None),
       (''output'', OPT_OUTPUT, Some ''FILE''),
       (''output_path'', OPT_OUTPUT_PATH, Some ''PATH''),
       (''max_size'', OPT_MAX_SIZE, Some ''SIZE(KiB)''),
       (''load_avg'', OPT_LOAD_AVG, None),
       (''runnable_avg'', OPT_RUNNABLE_AVG, None),
       (''util_avg'', OPT_UTIL_AVG, None),
       (''load_avg_cpu'', OPT_LOAD_AVG_CPU, None),
       (''runnable_avg_cpu'', OPT_RUNNABLE_AVG_CPU, None),
       (''util_avg_cpu'', OPT_UTIL_AVG_CPU, None),
       (''load_avg_task'', OPT_LOAD_AVG_TASK, None),
       (''runnable_avg_task'', OPT_RUNNABLE_AVG_TASK, None),
       (''util_avg_task'', OPT_UTIL_AVG_TASK, None),
       (''util_avg_rt'', OPT_UTIL_AVG_RT, None),
       (''util_avg_dl'', OPT_UTIL_AVG_DL, None),
       (''util_avg_irq'', OPT_UTIL_AVG_IRQ, None),
       (''util_avg_thermal'', OPT_UTIL_AVG_THERMAL, None),
       (''util_est'', OPT_UTIL_EST, None),
       (''util_est_cpu'', OPT_UTIL_EST_CPU, None),
       (''util_est_task'', OPT_UTIL_EST_TASK, None),
       (''cpu_nr_running'', OPT_CPU_NR_RUNNING, None),
       (''load_balance'', OPT_LOAD_BALANCE, None),
       (''pid'', OPT_FILTER_PID, Some ''PID''),
       (''comm'', OPT_FILTER_COMM, Some ''COMM'') ]"

definition option_key :: "string \<Rightarrow> sa_opts_flags option" where
  "option_key name = map_option fst (map_of options name)"

subsection \<open>The C library functions the parser calls\<close>

text \<open>Linux values of the two \<^verbatim>\<open>errno\<close> codes involved, and the range of \<^verbatim>\<open>long\<close>.\<close>

definition EINVAL :: int where
  "EINVAL = 22"

definition ERANGE :: int where
  "ERANGE = 34"

definition ARGP_ERR_UNKNOWN :: int where
  "ARGP_ERR_UNKNOWN = 7"

definition LONG_MAX :: int where
  "LONG_MAX = 2 ^ 63 - 1"

definition LONG_MIN :: int where
  "LONG_MIN = - (2 ^ 63)"

definition isspace :: "char \<Rightarrow> bool" where
  "isspace c = (c = CHR '' '' \<or> (9 \<le> (of_char c :: nat) \<and> (of_char c :: nat) \<le> 13))"

text \<open>
  The value of a character as a digit; 36 (no digit of any base) for every other
  character.
\<close>

definition digit_value :: "char \<Rightarrow> int" where
  "digit_value c =
     (let n = (of_char c :: int)
      in if 48 \<le> n \<and> n \<le> 57 then n - 48
         else if 65 \<le> n \<and> n \<le> 90 then n - 55
         else if 97 \<le> n \<and> n \<le> 122 then n - 87
         else 36)"

text \<open>
  The digit loop of \<^verbatim>\<open>strtol\<close>: the longest run of digits of the base, its value and its
  length. The loop goes on over the digits after an overflow, which is why the value is
  accumulated unbounded here and clamped afterwards.
\<close>

fun scan_digits :: "int \<Rightarrow> string \<Rightarrow> int \<Rightarrow> nat \<Rightarrow> int \<times> nat" where
  "scan_digits b [] acc n = (acc, n)"
| "scan_digits b (c # cs) acc n =
     (if digit_value c < b then scan_digits b cs (acc * b + digit_value c) (Suc n)
      else (acc, n))"

text \<open>
  \<^verbatim>\<open>strtol(nptr, &end_ptr, 0)\<close> with \<^verbatim>\<open>errno\<close> cleared before the call: the value, the offset
  of \<^verbatim>\<open>end_ptr\<close> from \<^verbatim>\<open>nptr\<close>, and \<^verbatim>\<open>errno\<close> after the call. White space is skipped, a sign
  is read, the base is 16 after \<^verbatim>\<open>0x\<close>, 8 after \<^verbatim>\<open>0\<close> and 10 otherwise. With no digit the
  result is 0 and \<^verbatim>\<open>end_ptr\<close> is \<^verbatim>\<open>nptr\<close>, except that \<^verbatim>\<open>0x\<close> with no hexadecimal digit
  behind it converts the \<^verbatim>\<open>0\<close> and leaves \<^verbatim>\<open>end_ptr\<close> at the \<^verbatim>\<open>x\<close>. A value out of the range
  of \<^verbatim>\<open>long\<close> gives \<^verbatim>\<open>LONG_MAX\<close> or \<^verbatim>\<open>LONG_MIN\<close> and \<^verbatim>\<open>ERANGE\<close>.
\<close>

definition strtol :: "string \<Rightarrow> int \<times> nat \<times> int" where
  "strtol nptr =
     (let ws = length (takeWhile isspace nptr);
          s0 = dropWhile isspace nptr;
          negative = (case s0 of [] \<Rightarrow> False | c # _ \<Rightarrow> c = CHR ''-'');
          sl = (case s0 of [] \<Rightarrow> 0 | c # _ \<Rightarrow> if c = CHR ''-'' \<or> c = CHR ''+'' then 1 else 0);
          s = drop sl s0;
          hex = (case s of c # d # _ \<Rightarrow> c = CHR ''0'' \<and> (d = CHR ''x'' \<or> d = CHR ''X'')
                 | _ \<Rightarrow> False);
          base = (case s of [] \<Rightarrow> 10 | c # _ \<Rightarrow> if c = CHR ''0'' then (if hex then 16 else 8) else 10);
          pl = (if hex then 2 else 0);
          (acc, cnt) = scan_digits base (drop pl s) 0 0;
          v = (if negative then - acc else acc)
      in if cnt = 0 then (if hex then (0, ws + sl + 1, 0) else (0, 0, 0))
         else if LONG_MAX < v then (LONG_MAX, ws + sl + pl + cnt, ERANGE)
         else if v < LONG_MIN then (LONG_MIN, ws + sl + pl + cnt, ERANGE)
         else (v, ws + sl + pl + cnt, 0))"

text \<open>
  The string a character array holds: the bytes before the first \<^verbatim>\<open>NUL\<close>.
\<close>

definition c_str :: "string \<Rightarrow> string" where
  "c_str buf = takeWhile (\<lambda>c. c \<noteq> NUL) buf"

text \<open>
  \<^verbatim>\<open>strncpy(dest, src, n)\<close>: the first \<open>n\<close> bytes of \<open>dest\<close> become the string \<open>src\<close>, cut
  after \<open>n\<close> bytes or padded with \<^verbatim>\<open>NUL\<close> up to \<open>n\<close>; the bytes of \<open>dest\<close> from \<open>n\<close> on stay.
\<close>

definition strncpy :: "string \<Rightarrow> string \<Rightarrow> nat \<Rightarrow> string" where
  "strncpy dest src n =
     (let c = take n (c_str src)
      in c @ replicate (n - length c) NUL @ drop n dest)"

text \<open>
  What the parser writes to \<^verbatim>\<open>stderr\<close>: \<^verbatim>\<open>perror\<close> with its message and the value of
  \<^verbatim>\<open>errno\<close>, \<^verbatim>\<open>fprintf\<close> with its text, and the short usage message of \<^verbatim>\<open>argp_usage\<close>, which
  argp makes from the name of the program and not from the arguments.
\<close>

datatype stderr_event =
    Perror string int
  | Fprintf string
  | Usage_message

text \<open>
  \<^verbatim>\<open>perror\<close> may itself change \<^verbatim>\<open>errno\<close>: when it cannot write to \<^verbatim>\<open>stderr\<close> (the stream is
  closed, or cannot be reopened for writing), the failing call inside it leaves its own
  error code. What it leaves depends on the state of \<^verbatim>\<open>stderr\<close>, which belongs to the
  environment of the process: \<open>perror_errno\<close> is \<open>None\<close> when \<^verbatim>\<open>perror\<close> leaves \<^verbatim>\<open>errno\<close> as it
  was, and \<open>Some e\<close> when it leaves the code \<open>e\<close>.
\<close>

record libc_env =
  perror_errno :: "int option"

text \<open>
  \<^verbatim>\<open>perror(msg)\<close> called with \<^verbatim>\<open>errno\<close>: the output, which describes the \<^verbatim>\<open>errno\<close> of the
  call, and \<^verbatim>\<open>errno\<close> after the call.
\<close>

definition perror :: "libc_env \<Rightarrow> string \<Rightarrow> int \<Rightarrow> stderr_event list \<times> int" where
  "perror env msg errno =
     ([Perror msg errno], case perror_errno env of None \<Rightarrow> errno | Some e \<Rightarrow> e)"

text \<open>
  The flags of the \<^verbatim>\<open>argp_state\<close> that decide what \<^verbatim>\<open>argp_usage\<close> does. They are set by the
  caller of \<^verbatim>\<open>argp_parse\<close>, which is not part of the sources.
\<close>

record argp_state =
  no_errs :: bool
  no_exit :: bool

text \<open>
  \<^verbatim>\<open>argp_usage(state)\<close>: nothing under \<^verbatim>\<open>ARGP_NO_ERRS\<close>; otherwise the usage message on
  \<^verbatim>\<open>stderr\<close>, and the process exits unless \<^verbatim>\<open>ARGP_NO_EXIT\<close> is set. The result is the
  output and whether the process has exited.
\<close>

definition argp_usage :: "argp_state \<Rightarrow> stderr_event list \<times> bool" where
  "argp_usage st = (if no_errs st then ([], False) else ([Usage_message], \<not> no_exit st))"

subsection \<open>The parser\<close>

text \<open>A call of \<^verbatim>\<open>parse_arg\<close> returns an \<^verbatim>\<open>error_t\<close>, or the process exits inside it.\<close>

datatype outcome =
    Return int
  | Exit_usage

text \<open>
  \<^verbatim>\<open>parse_arg(key, arg, state)\<close> on the global \<^verbatim>\<open>sa_opts\<close>, in the environment \<open>env\<close> and
  with an array \<^verbatim>\<open>comm\<close> of \<open>len\<close> bytes: the outcome, the output on
  \<^verbatim>\<open>stderr\<close>, and the value of \<^verbatim>\<open>sa_opts\<close> afterwards. The cases are in the order of the
  \<^verbatim>\<open>switch\<close>; the last equation is its \<^verbatim>\<open>default\<close>.
\<close>

fun parse_arg :: "nat \<Rightarrow> libc_env \<Rightarrow> argp_state \<Rightarrow> argp_key \<Rightarrow> string \<Rightarrow> sa_opts
    \<Rightarrow> outcome \<times> stderr_event list \<times> sa_opts" where
  "parse_arg len env st (Opt OPT_SYSTEM) arg s =
     (Return 0, [], s\<lparr>system := True, app := False\<rparr>)"
| "parse_arg len env st (Opt OPT_APP) arg s =
     (Return 0, [], s\<lparr>system := False, app := True\<rparr>)"
| "parse_arg len env st (Opt OPT_OUTPUT) arg s =
     (Return 0, [], s\<lparr>output_file := arg\<rparr>)"
| "parse_arg len env st (Opt OPT_OUTPUT_PATH) arg s =
     (Return 0, [], s\<lparr>output_path := Some arg\<rparr>)"
| "parse_arg len env st (Opt OPT_MAX_SIZE) arg s =
     (case strtol arg of (v, end_ptr, errno) \<Rightarrow>
        let s' = s\<lparr>max_size := word_of_int v * 1024\<rparr>
        in if errno \<noteq> 0 then
             (case perror env ''Unsupported max_size value\<newline>'' errno of (out, errno') \<Rightarrow>
                (Return errno', out, s'))
           else if end_ptr = 0 then
             (case argp_usage st of (out, exited) \<Rightarrow>
                (if exited then Exit_usage else Return (- EINVAL),
                 Fprintf ''max_size: no digits were found\<newline>'' # out, s'))
           else (Return 0, [], s'))"
| "parse_arg len env st (Opt OPT_LOAD_AVG) arg s =
     (Return 0, [], s\<lparr>load_avg_cpu := True, load_avg_task := True\<rparr>)"
| "parse_arg len env st (Opt OPT_RUNNABLE_AVG) arg s =
     (Return 0, [], s\<lparr>load_avg_cpu := True, runnable_avg_task := True\<rparr>)"
| "parse_arg len env st (Opt OPT_UTIL_AVG) arg s =
     (Return 0, [],
      s\<lparr>util_avg_cpu := True, util_avg_task := True, util_avg_rt := True,
        util_avg_dl := True, util_avg_irq := True, util_avg_thermal := True\<rparr>)"
| "parse_arg len env st (Opt OPT_LOAD_AVG_CPU) arg s =
     (Return 0, [], s\<lparr>load_avg_cpu := True\<rparr>)"
| "parse_arg len env st (Opt OPT_RUNNABLE_AVG_CPU) arg s =
     (Return 0, [], s\<lparr>runnable_avg_cpu := True\<rparr>)"
| "parse_arg len env st (Opt OPT_UTIL_AVG_CPU) arg s =
     (Return 0, [], s\<lparr>util_avg_cpu := True\<rparr>)"
| "parse_arg len env st (Opt OPT_LOAD_AVG_TASK) arg s =
     (Return 0, [], s\<lparr>load_avg_task := True\<rparr>)"
| "parse_arg len env st (Opt OPT_RUNNABLE_AVG_TASK) arg s =
     (Return 0, [], s\<lparr>runnable_avg_task := True\<rparr>)"
| "parse_arg len env st (Opt OPT_UTIL_AVG_TASK) arg s =
     (Return 0, [], s\<lparr>util_avg_task := True\<rparr>)"
| "parse_arg len env st (Opt OPT_UTIL_AVG_RT) arg s =
     (Return 0, [], s\<lparr>util_avg_rt := True\<rparr>)"
| "parse_arg len env st (Opt OPT_UTIL_AVG_DL) arg s =
     (Return 0, [], s\<lparr>util_avg_dl := True\<rparr>)"
| "parse_arg len env st (Opt OPT_UTIL_AVG_IRQ) arg s =
     (Return 0, [], s\<lparr>util_avg_irq := True\<rparr>)"
| "parse_arg len env st (Opt OPT_UTIL_AVG_THERMAL) arg s =
     (Return 0, [], s\<lparr>util_avg_thermal := True\<rparr>)"
| "parse_arg len env st (Opt OPT_UTIL_EST) arg s =
     (Return 0, [], s\<lparr>util_est_cpu := True, util_est_task := True\<rparr>)"
| "parse_arg len env st (Opt OPT_UTIL_EST_CPU) arg s =
     (Return 0, [], s\<lparr>util_est_cpu := True\<rparr>)"
| "parse_arg len env st (Opt OPT_UTIL_EST_TASK) arg s =
     (Return 0, [], s\<lparr>util_est_task := True\<rparr>)"
| "parse_arg len env st (Opt OPT_CPU_NR_RUNNING) arg s =
     (Return 0, [], s\<lparr>cpu_nr_running := True\<rparr>)"
| "parse_arg len env st (Opt OPT_LOAD_BALANCE) arg s =
     (Return 0, [], s\<lparr>load_balance := True\<rparr>)"
| "parse_arg len env st (Opt OPT_FILTER_PID) arg s =
     (case strtol arg of (v, end_ptr, errno) \<Rightarrow>
        let s' = s\<lparr>pid := word_of_int v\<rparr>
        in if errno \<noteq> 0 then
             (case perror env ''Unsupported pid value\<newline>'' errno of (out, errno') \<Rightarrow>
                (Return errno', out, s'))
           else if end_ptr = 0 then
             (case argp_usage st of (out, exited) \<Rightarrow>
                (if exited then Exit_usage else Return (- EINVAL),
                 Fprintf ''pid: no digits were found\<newline>'' # out, s'))
           else (Return 0, [], s'))"
| "parse_arg len env st (Opt OPT_FILTER_COMM) arg s =
     (Return 0, [], s\<lparr>comm := (strncpy (comm s) arg (len - 1))[len - 1 := NUL]\<rparr>)"
| "parse_arg len env st ARGP_KEY_ARG arg s =
     (case argp_usage st of (out, exited) \<Rightarrow>
        (if exited then Exit_usage else Return 0, out, s))"
| "parse_arg len env st ARGP_KEY_END arg s = (Return 0, [], s)"
| "parse_arg len env st _ arg s = (Return ARGP_ERR_UNKNOWN, [], s)"

abbreviation ret_of :: "outcome \<times> stderr_event list \<times> sa_opts \<Rightarrow> outcome" where
  "ret_of r \<equiv> fst r"

abbreviation out_of :: "outcome \<times> stderr_event list \<times> sa_opts \<Rightarrow> stderr_event list" where
  "out_of r \<equiv> fst (snd r)"

abbreviation opts_of :: "outcome \<times> stderr_event list \<times> sa_opts \<Rightarrow> sa_opts" where
  "opts_of r \<equiv> snd (snd r)"

subsection \<open>The driver\<close>

text \<open>
  Modelled from the spec: the driver of the parser, \<^verbatim>\<open>argp_parse\<close> of the C library and
  its caller in \<^verbatim>\<open>main\<close>, is not part of the sources. A command line is the sequence of
  calls \<open>(key, arg)\<close> that it makes on \<^verbatim>\<open>parse_arg\<close>. Following the spec, the calls are
  made from left to right on the configuration under construction, the first call that
  does not return 0 is final, and the end of the input with no error yields the
  accumulated configuration. \<open>run\<close> is the pass over the calls; \<open>parse\<close> starts from the
  initial \<^verbatim>\<open>sa_opts\<close>, ends the input with \<^verbatim>\<open>ARGP_KEY_END\<close>, and returns the
  configuration or the failure (the outcome and the output on \<^verbatim>\<open>stderr\<close>).
\<close>

fun run :: "nat \<Rightarrow> libc_env \<Rightarrow> argp_state \<Rightarrow> (argp_key \<times> string) list \<Rightarrow> sa_opts
    \<Rightarrow> outcome \<times> stderr_event list \<times> sa_opts" where
  "run len env st [] s = (Return 0, [], s)"
| "run len env st ((key, arg) # rest) s =
     (case parse_arg len env st key arg s of (r, out, s') \<Rightarrow>
        if r = Return 0 then
          (case run len env st rest s' of (r', out', s'') \<Rightarrow> (r', out @ out', s''))
        else (r, out, s'))"

definition parse :: "nat \<Rightarrow> libc_env \<Rightarrow> argp_state \<Rightarrow> (argp_key \<times> string) list
    \<Rightarrow> (outcome \<times> stderr_event list) + sa_opts" where
  "parse len env st calls =
     (case run len env st (calls @ [(ARGP_KEY_END, [])]) (sa_opts_init len) of (r, out, s) \<Rightarrow>
        if r = Return 0 then Inr s else Inl (r, out))"

subsection \<open>Predicates of the statements\<close>

text \<open>
  An argument from which \<^verbatim>\<open>strtol\<close> can consume no digit: after the white space and an
  optional sign, the text is over or does not start with a decimal digit.
\<close>

definition is_digit :: "char \<Rightarrow> bool" where
  "is_digit c = (48 \<le> (of_char c :: int) \<and> (of_char c :: int) \<le> 57)"

definition no_digits :: "string \<Rightarrow> bool" where
  "no_digits arg =
     (case dropWhile isspace arg of
        [] \<Rightarrow> True
      | c # cs \<Rightarrow>
          if c = CHR ''-'' \<or> c = CHR ''+'' then (case cs of [] \<Rightarrow> True | d # _ \<Rightarrow> \<not> is_digit d)
          else \<not> is_digit c)"

text \<open>Every event toggle that is set in \<open>s\<close> is set in \<open>s'\<close>.\<close>

definition toggles_kept :: "sa_opts \<Rightarrow> sa_opts \<Rightarrow> bool" where
  "toggles_kept s s' =
     ((load_avg_cpu s \<longrightarrow> load_avg_cpu s') \<and>
      (load_avg_task s \<longrightarrow> load_avg_task s') \<and>
      (runnable_avg_cpu s \<longrightarrow> runnable_avg_cpu s') \<and>
      (runnable_avg_task s \<longrightarrow> runnable_avg_task s') \<and>
      (util_avg_cpu s \<longrightarrow> util_avg_cpu s') \<and>
      (util_avg_task s \<longrightarrow> util_avg_task s') \<and>
      (util_avg_rt s \<longrightarrow> util_avg_rt s') \<and>
      (util_avg_dl s \<longrightarrow> util_avg_dl s') \<and>
      (util_avg_irq s \<longrightarrow> util_avg_irq s') \<and>
      (util_avg_thermal s \<longrightarrow> util_avg_thermal s') \<and>
      (util_est_cpu s \<longrightarrow> util_est_cpu s') \<and>
      (util_est_task s \<longrightarrow> util_est_task s') \<and>
      (cpu_nr_running s \<longrightarrow> cpu_nr_running s') \<and>
      (cpu_freq s \<longrightarrow> cpu_freq s') \<and>
      (cpu_idle s \<longrightarrow> cpu_idle s') \<and>
      (softirq s \<longrightarrow> softirq s') \<and>
      (sched_switch s \<longrightarrow> sched_switch s') \<and>
      (load_balance s \<longrightarrow> load_balance s'))"

section \<open>Properties\<close>

subsection \<open>Auxiliary facts\<close>

lemma not_digit_scan:
  "\<not> is_digit c \<Longrightarrow> scan_digits 10 (c # cs) 0 0 = (0, 0)"
  by (auto simp: is_digit_def digit_value_def Let_def)

lemma not_digit_not_zero:
  "\<not> is_digit c \<Longrightarrow> c \<noteq> CHR ''0''"
  by (auto simp: is_digit_def)

text \<open>With no digit to consume, \<^verbatim>\<open>strtol\<close> returns 0, leaves \<^verbatim>\<open>end_ptr\<close> at the start and
  does not touch \<^verbatim>\<open>errno\<close>.\<close>

lemma strtol_no_digits:
  assumes "no_digits arg"
  shows "strtol arg = (0, 0, 0)"
proof (cases "dropWhile isspace arg")
  case Nil
  show ?thesis by (simp add: strtol_def Nil)
next
  case (Cons c cs)
  show ?thesis
  proof (cases "c = CHR ''-'' \<or> c = CHR ''+''")
    case True
    show ?thesis
    proof (cases cs)
      case Nil
      with Cons True show ?thesis by (auto simp: strtol_def)
    next
      case (Cons d ds)
      with assms \<open>dropWhile isspace arg = c # cs\<close> True have nd: "\<not> is_digit d"
        by (auto simp: no_digits_def)
      from nd have "d \<noteq> CHR ''0''" by (rule not_digit_not_zero)
      with Cons \<open>dropWhile isspace arg = c # cs\<close> True not_digit_scan [OF nd, of ds]
      show ?thesis
        by (auto simp: strtol_def Let_def split: list.splits)
    qed
  next
    case False
    with assms Cons have nd: "\<not> is_digit c" by (auto simp: no_digits_def)
    from nd have "c \<noteq> CHR ''0''" by (rule not_digit_not_zero)
    with Cons False not_digit_scan [OF nd, of cs]
    show ?thesis
      by (auto simp: strtol_def Let_def split: list.splits)
  qed
qed

lemma sint_of_int_64:
  "- (2 ^ 63) \<le> x \<Longrightarrow> x < 2 ^ 63 \<Longrightarrow> sint (word_of_int x :: 64 word) = x"
  by (simp add: signed_of_int signed_take_bit_int_eq_self)

lemma sint_times_1024:
  assumes "- (2 ^ 53) \<le> v" "v < 2 ^ 53"
  shows "sint (word_of_int v * 1024 :: 64 word) = v * 1024"
proof -
  have eq: "word_of_int v * (1024 :: 64 word) = word_of_int (v * 1024)" by simp
  have "- (2 ^ 63) \<le> v * 1024" and "v * 1024 < 2 ^ 63"
    using assms by simp_all
  then have "sint (word_of_int (v * 1024) :: 64 word) = v * 1024"
    by (rule sint_of_int_64)
  then show ?thesis by (simp only: eq)
qed

lemma run_append:
  "run len env st (xs @ ys) s =
     (case run len env st xs s of (r, out, s') \<Rightarrow>
        if r = Return 0 then
          (case run len env st ys s' of (r', out', s'') \<Rightarrow> (r', out @ out', s''))
        else (r, out, s'))"
  by (induction xs arbitrary: s) (auto split: prod.splits)

lemma parse_arg_mode:
  "system s = (\<not> app s) \<Longrightarrow>
   system (opts_of (parse_arg len env st key arg s)) = (\<not> app (opts_of (parse_arg len env st key arg s)))"
proof (cases key)
  case (Opt f)
  assume "system s = (\<not> app s)"
  then show ?thesis unfolding Opt
    by (cases f) (simp_all add: Let_def split: prod.splits)
qed (simp_all split: prod.splits)

lemma parse_arg_toggles:
  "toggles_kept s (opts_of (parse_arg len env st key arg s))"
proof (cases key)
  case (Opt f)
  show ?thesis unfolding Opt
    by (cases f) (simp_all add: toggles_kept_def Let_def split: prod.splits)
qed (simp_all add: toggles_kept_def split: prod.splits)

lemma opts_of_run_Cons:
  "opts_of (run len env st ((key, arg) # rest) s) =
     (if ret_of (parse_arg len env st key arg s) = Return 0
      then opts_of (run len env st rest (opts_of (parse_arg len env st key arg s)))
      else opts_of (parse_arg len env st key arg s))"
  by (simp split: prod.splits)

lemma run_mode:
  "system s = (\<not> app s) \<Longrightarrow>
   system (opts_of (run len env st calls s)) = (\<not> app (opts_of (run len env st calls s)))"
proof (induction calls arbitrary: s)
  case Nil
  then show ?case by simp
next
  case (Cons c calls)
  obtain key arg where c: "c = (key, arg)" by (cases c)
  let ?s' = "opts_of (parse_arg len env st key arg s)"
  from Cons.prems have inv: "system ?s' = (\<not> app ?s')" by (rule parse_arg_mode)
  from inv have "system (opts_of (run len env st calls ?s')) = (\<not> app (opts_of (run len env st calls ?s')))"
    by (rule Cons.IH)
  with inv show ?case unfolding c opts_of_run_Cons by (simp only: if_split) blast
qed

lemma toggles_kept_refl: "toggles_kept s s"
  by (simp add: toggles_kept_def)

lemma toggles_kept_trans:
  "toggles_kept s t \<Longrightarrow> toggles_kept t u \<Longrightarrow> toggles_kept s u"
  by (simp add: toggles_kept_def)

lemma toggles_keptD:
  "toggles_kept s s' \<Longrightarrow> load_balance s \<Longrightarrow> util_avg_rt s \<Longrightarrow> load_balance s' \<and> util_avg_rt s'"
  by (simp add: toggles_kept_def)

lemma run_toggles:
  "toggles_kept s (opts_of (run len env st calls s))"
proof (induction calls arbitrary: s)
  case Nil
  show ?case by (simp add: toggles_kept_refl)
next
  case (Cons c calls)
  obtain key arg where c: "c = (key, arg)" by (cases c)
  let ?s' = "opts_of (parse_arg len env st key arg s)"
  have step: "toggles_kept s ?s'" by (rule parse_arg_toggles)
  have "toggles_kept ?s' (opts_of (run len env st calls ?s'))" by (rule Cons.IH)
  with step have "toggles_kept s (opts_of (run len env st calls ?s'))"
    by (rule toggles_kept_trans)
  with step show ?case unfolding c opts_of_run_Cons by (simp only: if_split) blast
qed

lemma parse_single:
  "parse len env st [(key, arg)] =
     (if ret_of (parse_arg len env st key arg (sa_opts_init len)) = Return 0
      then Inr (opts_of (parse_arg len env st key arg (sa_opts_init len)))
      else Inl (ret_of (parse_arg len env st key arg (sa_opts_init len)),
                out_of (parse_arg len env st key arg (sa_opts_init len))))"
  by (simp add: parse_def split: prod.splits)

lemma max_size_accepted:
  assumes "strtol arg = (v, end_ptr, 0)" and "end_ptr \<noteq> 0"
  shows "parse_arg len env st (Opt OPT_MAX_SIZE) arg s
           = (Return 0, [], s\<lparr>max_size := word_of_int v * 1024\<rparr>)"
  using assms by simp

lemma sint_times_1024_long:
  assumes "LONG_MIN \<le> v * 1024" and "v * 1024 \<le> LONG_MAX"
  shows "sint (word_of_int v * 1024 :: 64 word) = v * 1024"
  using assms by (intro sint_times_1024) (simp_all add: LONG_MIN_def LONG_MAX_def)

lemma strtol_1024: "strtol ''1024'' = (1024, 4, 0)"
  by (simp add: strtol_def isspace_def digit_value_def LONG_MAX_def LONG_MIN_def)

lemma strtol_2_54: "strtol ''18014398509481984'' = (18014398509481984, 17, 0)"
  by (simp add: strtol_def isspace_def digit_value_def LONG_MAX_def LONG_MIN_def)

lemma strtol_minus_1: "strtol ''-1'' = (- 1, 2, 0)"
  by (simp add: strtol_def isspace_def digit_value_def LONG_MAX_def LONG_MIN_def)

lemma scan_digits_count: "n \<le> snd (scan_digits b cs acc n)"
  by (induction b cs acc n rule: scan_digits.induct) (auto dest: Suc_leD)

lemma digit_scan_pos:
  assumes "is_digit d"
  shows "snd (scan_digits (if d = CHR ''0'' then 8 else 10) (d # ds) 0 0) \<noteq> 0"
proof -
  from assms have lt: "digit_value d < (if d = CHR ''0'' then 8 else 10)"
    by (auto simp: is_digit_def digit_value_def Let_def)
  have "Suc 0 \<le> snd (scan_digits (if d = CHR ''0'' then 8 else 10) ds
      (0 * (if d = CHR ''0'' then 8 else 10) + digit_value d) (Suc 0))"
    by (rule scan_digits_count)
  with lt show ?thesis by (simp del: mult_zero_left)
qed

lemma strtol_end:
  "fst (snd (strtol nptr)) =
     (let ws = length (takeWhile isspace nptr);
          sl = (case dropWhile isspace nptr of [] \<Rightarrow> 0
                | c # _ \<Rightarrow> if c = CHR ''-'' \<or> c = CHR ''+'' then 1 else 0);
          s = drop sl (dropWhile isspace nptr);
          hex = (case s of c # d # _ \<Rightarrow> c = CHR ''0'' \<and> (d = CHR ''x'' \<or> d = CHR ''X'')
                 | _ \<Rightarrow> False);
          base = (case s of [] \<Rightarrow> 10 | c # _ \<Rightarrow> if c = CHR ''0'' then (if hex then 16 else 8) else 10);
          pl = (if hex then 2 else 0);
          cnt = snd (scan_digits base (drop pl s) 0 0)
      in if cnt = 0 then (if hex then ws + sl + 1 else 0) else ws + sl + pl + cnt)"
  by (simp add: strtol_def Let_def split: prod.splits)

lemma strtol_digit_end:
  assumes s0: "dropWhile isspace arg = pre @ d # ds"
    and pre: "pre = [] \<or> pre = [CHR ''-''] \<or> pre = [CHR ''+'']"
    and d: "is_digit d"
  shows "fst (snd (strtol arg)) \<noteq> 0"
proof -
  from d have dns: "d \<noteq> CHR ''-''" "d \<noteq> CHR ''+''" by (auto simp: is_digit_def)
  have sl: "(case dropWhile isspace arg of [] \<Rightarrow> 0
                | c # _ \<Rightarrow> if c = CHR ''-'' \<or> c = CHR ''+'' then 1 else 0) = length pre"
    using pre dns unfolding s0 by auto
  have s: "drop (length pre) (dropWhile isspace arg) = d # ds"
    unfolding s0 by simp
  let ?hex = "(case d # ds of c # e # _ \<Rightarrow> c = CHR ''0'' \<and> (e = CHR ''x'' \<or> e = CHR ''X'') | _ \<Rightarrow> False)"
  show ?thesis
  proof (cases ?hex)
    case True
    show ?thesis unfolding strtol_end Let_def sl s using True by simp
  next
    case False
    then have b: "(case d # ds of [] \<Rightarrow> 10 | c # _ \<Rightarrow> if c = CHR ''0'' then (if ?hex then 16 else 8) else 10)
        = (if d = CHR ''0'' then 8 else (10::int))"
      by (cases ds) auto
    from digit_scan_pos [OF d, of ds]
    have c: "snd (scan_digits (if d = CHR ''0'' then 8 else 10) (d # ds) 0 0) \<noteq> 0" .
    show ?thesis unfolding strtol_end Let_def sl s b using False c
      by (simp del: scan_digits.simps)
  qed
qed

text \<open>\<open>no_digits\<close> is exactly the condition \<^verbatim>\<open>end_ptr == arg\<close> that the parser tests.\<close>

lemma strtol_end_zero_iff:
  "fst (snd (strtol arg)) = 0 \<longleftrightarrow> no_digits arg"
proof
  assume "no_digits arg"
  then show "fst (snd (strtol arg)) = 0" by (simp add: strtol_no_digits)
next
  assume e: "fst (snd (strtol arg)) = 0"
  show "no_digits arg"
  proof (rule ccontr)
    assume n: "\<not> no_digits arg"
    then obtain c cs where s0: "dropWhile isspace arg = c # cs"
      by (cases "dropWhile isspace arg") (simp_all add: no_digits_def)
    show False
    proof (cases "c = CHR ''-'' \<or> c = CHR ''+''")
      case True
      with n s0 obtain d ds where "cs = d # ds" "is_digit d"
        by (cases cs) (auto simp: no_digits_def)
      with s0 True have "dropWhile isspace arg = [c] @ d # ds" "[c] = [] \<or> [c] = [CHR ''-''] \<or> [c] = [CHR ''+'']"
        by auto
      from strtol_digit_end [OF this \<open>is_digit d\<close>] e show False by contradiction
    next
      case False
      with n s0 have "is_digit c" by (auto simp: no_digits_def)
      moreover from s0 have "dropWhile isspace arg = [] @ c # cs" by simp
      moreover have "[] = [] \<or> [] = [CHR ''-''] \<or> [] = [CHR ''+'']" by simp
      ultimately have "fst (snd (strtol arg)) \<noteq> 0" by (metis strtol_digit_end)
      with e show False by contradiction
    qed
  qed
qed

lemma strtol_errno:
  "snd (snd (strtol arg)) = 0 \<or> snd (snd (strtol arg)) = ERANGE"
  by (simp add: strtol_def Let_def split: prod.splits)

lemma no_digits_max_size:
  assumes "no_digits arg"
  shows "parse_arg len env st (Opt OPT_MAX_SIZE) arg s =
           (if no_errs st \<or> no_exit st then Return (- EINVAL) else Exit_usage,
            Fprintf ''max_size: no digits were found\<newline>''
              # (if no_errs st then [] else [Usage_message]),
            s\<lparr>max_size := 0\<rparr>)"
  by (simp add: strtol_no_digits [OF assms] argp_usage_def)

lemma no_digits_pid:
  assumes "no_digits arg"
  shows "parse_arg len env st (Opt OPT_FILTER_PID) arg s =
           (if no_errs st \<or> no_exit st then Return (- EINVAL) else Exit_usage,
            Fprintf ''pid: no digits were found\<newline>''
              # (if no_errs st then [] else [Usage_message]),
            s\<lparr>pid := 0\<rparr>)"
  by (simp add: strtol_no_digits [OF assms] argp_usage_def)

lemma overflow_max_size:
  assumes "snd (snd (strtol big)) = ERANGE"
  shows "parse_arg len env st (Opt OPT_MAX_SIZE) big s =
           (Return (case perror_errno env of None \<Rightarrow> ERANGE | Some e \<Rightarrow> e),
            [Perror ''Unsupported max_size value\<newline>'' ERANGE],
            s\<lparr>max_size := word_of_int (fst (strtol big)) * 1024\<rparr>)"
proof -
  obtain v e where "strtol big = (v, e, ERANGE)"
    using assms by (cases "strtol big") auto
  then show ?thesis by (simp add: ERANGE_def perror_def split: option.splits)
qed

lemma overflow_pid:
  assumes "snd (snd (strtol big)) = ERANGE"
  shows "parse_arg len env st (Opt OPT_FILTER_PID) big s =
           (Return (case perror_errno env of None \<Rightarrow> ERANGE | Some e \<Rightarrow> e),
            [Perror ''Unsupported pid value\<newline>'' ERANGE],
            s\<lparr>pid := word_of_int (fst (strtol big))\<rparr>)"
proof -
  obtain v e where "strtol big = (v, e, ERANGE)"
    using assms by (cases "strtol big") auto
  then show ?thesis by (simp add: ERANGE_def perror_def split: option.splits)
qed

lemma no_digits_abc: "no_digits ''abc''"
  by (simp add: no_digits_def isspace_def is_digit_def)

lemma no_digits_xyz: "no_digits ''xyz''"
  by (simp add: no_digits_def isspace_def is_digit_def)

lemma strtol_big: "strtol ''99999999999999999999'' = (LONG_MAX, 20, ERANGE)"
  by (simp add: strtol_def isspace_def digit_value_def LONG_MAX_def LONG_MIN_def)

lemma abc_not_in_message:
  "\<not> sublist ''abc'' ''max_size: no digits were found\<newline>''"
  by code_simp

lemma xyz_not_in_message:
  "\<not> sublist ''xyz'' ''pid: no digits were found\<newline>''"
  by code_simp

lemma parse_arg_frame:
  "opts_of (parse_arg len env st key arg s) \<noteq> s \<Longrightarrow> ret_of (parse_arg len env st key arg s) \<noteq> Return 0 \<Longrightarrow>
   key = Opt OPT_MAX_SIZE \<or> key = Opt OPT_FILTER_PID"
proof (cases key)
  case (Opt f)
  assume "opts_of (parse_arg len env st key arg s) \<noteq> s" "ret_of (parse_arg len env st key arg s) \<noteq> Return 0"
  then show ?thesis unfolding Opt
    by (cases f) (simp_all add: Let_def split: prod.splits)
qed (simp_all split: prod.splits)

lemma parse_arg_failure_frame:
  assumes "ret_of (parse_arg len env st key arg s) \<noteq> Return 0"
  shows "opts_of (parse_arg len env st key arg s) =
           (if key = Opt OPT_MAX_SIZE then s\<lparr>max_size := word_of_int (fst (strtol arg)) * 1024\<rparr>
            else if key = Opt OPT_FILTER_PID then s\<lparr>pid := word_of_int (fst (strtol arg))\<rparr>
            else s)"
proof (cases "key = Opt OPT_MAX_SIZE \<or> key = Opt OPT_FILTER_PID")
  case True
  then show ?thesis by (auto simp: Let_def split: prod.splits)
next
  case False
  with parse_arg_frame [of len env st key arg s] assms
  have "opts_of (parse_arg len env st key arg s) = s" by blast
  with False show ?thesis by simp
qed

lemma run_Cons_fail:
  "ret_of (parse_arg len env st key arg s) \<noteq> Return 0 \<Longrightarrow>
   run len env st ((key, arg) # rest) s = parse_arg len env st key arg s"
  by (cases "parse_arg len env st key arg s") simp

lemma parse_fails:
  assumes "run len env st before (sa_opts_init len) = (Return 0, out0, s)"
    and "ret_of (parse_arg len env st key arg s) \<noteq> Return 0"
  shows "parse len env st (before @ (key, arg) # rest)
           = Inl (ret_of (parse_arg len env st key arg s), out0 @ out_of (parse_arg len env st key arg s))"
proof -
  have "run len env st (((key, arg) # rest) @ [(ARGP_KEY_END, [])]) s = parse_arg len env st key arg s"
    unfolding append_Cons using assms(2) by (rule run_Cons_fail)
  then have "run len env st ((before @ (key, arg) # rest) @ [(ARGP_KEY_END, [])]) (sa_opts_init len)
      = (ret_of (parse_arg len env st key arg s), out0 @ out_of (parse_arg len env st key arg s),
         opts_of (parse_arg len env st key arg s))"
    by (simp only: append_assoc run_append [of len env st before] assms(1))
       (simp del: parse_arg.simps run.simps split: prod.splits)
  then show ?thesis using assms(2) unfolding parse_def by (simp del: parse_arg.simps run.simps)
qed

lemma c_str_no_NUL: "NUL \<notin> set (c_str buf)"
  unfolding c_str_def by (induction buf) auto

lemma c_str_id: "NUL \<notin> set arg \<Longrightarrow> c_str arg = arg"
  unfolding c_str_def by (induction arg) auto

lemma c_str_terminated:
  "NUL \<notin> set xs \<Longrightarrow> c_str (xs @ NUL # ys) = xs"
  unfolding c_str_def by (induction xs) auto

lemma c_str_padded:
  "NUL \<notin> set xs \<Longrightarrow> c_str (xs @ replicate k NUL @ [NUL]) = xs"
  by (cases k) (simp_all add: c_str_terminated)

lemma comm_buffer:
  assumes "0 < len" and "length dest = len"
  shows "(strncpy dest arg (len - 1))[len - 1 := NUL]
           = take (len - 1) (c_str arg)
             @ replicate (len - 1 - length (take (len - 1) (c_str arg))) NUL @ [NUL]"
proof -
  let ?c = "take (len - 1) (c_str arg)"
  let ?pad = "replicate (len - 1 - length ?c) NUL"
  have l: "length (?c @ ?pad) = len - 1" by simp
  from assms have "length (drop (len - 1) dest) = Suc 0" by simp
  then obtain z where z: "drop (len - 1) dest = [z]"
    by (metis length_Suc_conv length_0_conv)
  have "(strncpy dest arg (len - 1))[len - 1 := NUL] = ((?c @ ?pad) @ [z])[len - 1 := NUL]"
    unfolding strncpy_def Let_def z by simp
  also have "\<dots> = (?c @ ?pad) @ [NUL]"
    using l by (metis list_update_length)
  finally show ?thesis by simp
qed

subsection \<open>The default configuration\<close>

text \<open>
  C1. For the empty argument list, \<open>parse\<close> returns the configuration of the initialiser
  of \<^verbatim>\<open>sa_opts\<close>: \<^verbatim>\<open>system\<close> is true and \<^verbatim>\<open>app\<close> false, the output file name is
  \<^verbatim>\<open>sched-analyzer.perfetto-trace\<close>, \<^verbatim>\<open>output_path\<close> is unset, \<^verbatim>\<open>max_size\<close> is
  250 * 1024 * 1024 bytes, every event toggle is false, \<^verbatim>\<open>pid\<close> is 0, and \<^verbatim>\<open>comm\<close> is all
  \<^verbatim>\<open>NUL\<close>, that is the empty string.
\<close>

theorem parse_empty_defaults:
  "parse len env st [] =
     Inr \<lparr> system = True, app = False,
           output_file = ''sched-analyzer.perfetto-trace'',
           output_path = None,
           max_size = 250 * 1024 * 1024,
           load_avg_cpu = False, load_avg_task = False,
           runnable_avg_cpu = False, runnable_avg_task = False,
           util_avg_cpu = False, util_avg_task = False, util_avg_rt = False,
           util_avg_dl = False, util_avg_irq = False, util_avg_thermal = False,
           util_est_cpu = False, util_est_task = False,
           cpu_nr_running = False, cpu_freq = False, cpu_idle = False,
           softirq = False, sched_switch = False, load_balance = False,
           pid = 0, comm = replicate len NUL \<rparr>
   \<and> c_str (replicate len NUL) = []"
  by (simp add: parse_def sa_opts_init_def c_str_def)

subsection \<open>Umbrella options\<close>

text \<open>
  C3. From every prior configuration, \<^verbatim>\<open>--util_avg\<close> succeeds, sets the six fields
  \<^verbatim>\<open>util_avg_cpu\<close>, \<^verbatim>\<open>util_avg_task\<close>, \<^verbatim>\<open>util_avg_rt\<close>, \<^verbatim>\<open>util_avg_dl\<close>, \<^verbatim>\<open>util_avg_irq\<close> and
  \<^verbatim>\<open>util_avg_thermal\<close> to true, and leaves every other field as it was.
\<close>

theorem util_avg_sets_six:
  "parse_arg len env st (Opt OPT_UTIL_AVG) arg s =
     (Return 0, [],
      s\<lparr>util_avg_cpu := True, util_avg_task := True, util_avg_rt := True,
        util_avg_dl := True, util_avg_irq := True, util_avg_thermal := True\<rparr>)"
  by simp

text \<open>
  C8. From every prior configuration, \<^verbatim>\<open>--runnable_avg\<close> succeeds, sets \<^verbatim>\<open>load_avg_cpu\<close> and
  \<^verbatim>\<open>runnable_avg_task\<close> to true, and leaves every other field as it was; in particular
  \<^verbatim>\<open>runnable_avg_cpu\<close> keeps its prior value.
\<close>

theorem runnable_avg_sets_load_avg_cpu:
  "parse_arg len env st (Opt OPT_RUNNABLE_AVG) arg s =
     (Return 0, [], s\<lparr>load_avg_cpu := True, runnable_avg_task := True\<rparr>)
   \<and> runnable_avg_cpu (opts_of (parse_arg len env st (Opt OPT_RUNNABLE_AVG) arg s)) = runnable_avg_cpu s"
  by simp

subsection \<open>The two mode flags\<close>

text \<open>
  C2. After any sequence of calls of the parser on the initial configuration, whether
  the sequence ran to its end or stopped at a failing call, exactly one of \<^verbatim>\<open>system\<close> and
  \<^verbatim>\<open>app\<close> is true. The sequence is arbitrary, so this holds after each option of a
  command line. From any configuration, \<^verbatim>\<open>--system\<close> followed by \<^verbatim>\<open>--app\<close> leaves \<^verbatim>\<open>app\<close>
  alone true, and \<^verbatim>\<open>--app\<close> followed by \<^verbatim>\<open>--system\<close> leaves \<^verbatim>\<open>system\<close> alone true.
\<close>

theorem mode_flags_exclusive:
  "system (opts_of (run len env st calls (sa_opts_init len)))
     = (\<not> app (opts_of (run len env st calls (sa_opts_init len))))
   \<and> opts_of (run len env st [(Opt OPT_SYSTEM, a), (Opt OPT_APP, b)] s)
       = s\<lparr>system := False, app := True\<rparr>
   \<and> opts_of (run len env st [(Opt OPT_APP, a), (Opt OPT_SYSTEM, b)] s)
       = s\<lparr>system := True, app := False\<rparr>"
proof -
  have "system (sa_opts_init len) = (\<not> app (sa_opts_init len))"
    by (simp add: sa_opts_init_def)
  then have "system (opts_of (run len env st calls (sa_opts_init len)))
     = (\<not> app (opts_of (run len env st calls (sa_opts_init len))))"
    by (rule run_mode)
  then show ?thesis by simp
qed

subsection \<open>Event toggles are never cleared\<close>

text \<open>
  C10. No call of the parser, with any key, argument and prior configuration and whether it
  succeeds or fails, turns an event toggle from true to false; hence a toggle that is
  set stays set after any further sequence of calls.
\<close>

theorem toggles_monotone:
  "toggles_kept s (opts_of (parse_arg len env st key arg s))
   \<and> toggles_kept s (opts_of (run len env st calls s))"
  by (simp add: parse_arg_toggles run_toggles)

theorem toggles_monotone_witness:
  "load_balance ((sa_opts_init 16)\<lparr>util_avg_rt := True, load_balance := True\<rparr>)
   \<and> util_avg_rt ((sa_opts_init 16)\<lparr>util_avg_rt := True, load_balance := True\<rparr>)
   \<and> load_balance (opts_of (run 16 \<lparr>perror_errno = None\<rparr> \<lparr>no_errs = False, no_exit = False\<rparr>
        [(Opt OPT_APP, []), (Opt OPT_FILTER_PID, ''xyz''), (Opt OPT_UTIL_EST, [])]
        ((sa_opts_init 16)\<lparr>util_avg_rt := True, load_balance := True\<rparr>)))
   \<and> util_avg_rt (opts_of (run 16 \<lparr>perror_errno = None\<rparr> \<lparr>no_errs = False, no_exit = False\<rparr>
        [(Opt OPT_APP, []), (Opt OPT_FILTER_PID, ''xyz''), (Opt OPT_UTIL_EST, [])]
        ((sa_opts_init 16)\<lparr>util_avg_rt := True, load_balance := True\<rparr>)))"
proof -
  let ?st = "\<lparr>no_errs = False, no_exit = False\<rparr>"
  let ?s = "(sa_opts_init 16)\<lparr>util_avg_rt := True, load_balance := True\<rparr>"
  let ?calls = "[(Opt OPT_APP, []), (Opt OPT_FILTER_PID, ''xyz''), (Opt OPT_UTIL_EST, [])]"
  have a: "load_balance ?s" and b: "util_avg_rt ?s" by simp_all
  from toggles_monotone [of ?s 16 "\<lparr>perror_errno = None\<rparr>" ?st "Opt OPT_APP" "[]" ?calls]
  have "toggles_kept ?s (opts_of (run 16 \<lparr>perror_errno = None\<rparr> ?st ?calls ?s))"
    by (rule conjunct2)
  then have c: "load_balance (opts_of (run 16 \<lparr>perror_errno = None\<rparr> ?st ?calls ?s))
      \<and> util_avg_rt (opts_of (run 16 \<lparr>perror_errno = None\<rparr> ?st ?calls ?s))"
    using a b by (rule toggles_keptD)
  from a b c show ?thesis by (intro conjI) (erule conjunct1 conjunct2 | assumption)+
qed

subsection \<open>The size limit\<close>

text \<open>
  C4, as the claim states it, fails: the product \<^verbatim>\<open>strtol(...) * 1024\<close> is computed in a
  64-bit \<^verbatim>\<open>long\<close>. The text \<^verbatim>\<open>18014398509481984\<close> (2 to the 54) parses without error, the
  option is accepted, and the stored size is 0, which is not 2 to the 54 times 1024 under
  the signed or the unsigned reading of the field.
\<close>

theorem max_size_overflow_counterexample:
  "strtol ''18014398509481984'' = (18014398509481984, 17, 0)
   \<and> ret_of (parse_arg 16 \<lparr>perror_errno = None\<rparr> \<lparr>no_errs = False, no_exit = False\<rparr>
        (Opt OPT_MAX_SIZE) ''18014398509481984'' (sa_opts_init 16)) = Return 0
   \<and> max_size (opts_of (parse_arg 16 \<lparr>perror_errno = None\<rparr> \<lparr>no_errs = False, no_exit = False\<rparr>
        (Opt OPT_MAX_SIZE) ''18014398509481984'' (sa_opts_init 16))) = 0
   \<and> sint (max_size (opts_of (parse_arg 16 \<lparr>perror_errno = None\<rparr> \<lparr>no_errs = False, no_exit = False\<rparr>
        (Opt OPT_MAX_SIZE) ''18014398509481984'' (sa_opts_init 16)))) \<noteq> 18014398509481984 * 1024
   \<and> uint (max_size (opts_of (parse_arg 16 \<lparr>perror_errno = None\<rparr> \<lparr>no_errs = False, no_exit = False\<rparr>
        (Opt OPT_MAX_SIZE) ''18014398509481984'' (sa_opts_init 16)))) \<noteq> 18014398509481984 * 1024"
  by (simp add: strtol_2_54)

text \<open>
  C4, amended. For every \<^verbatim>\<open>--max_size\<close> argument that \<^verbatim>\<open>strtol\<close> converts to an integer \<open>v\<close>
  (digits were consumed and \<^verbatim>\<open>errno\<close> stayed 0) such that \<open>v * 1024\<close> is in the range of
  \<^verbatim>\<open>long\<close>, the option succeeds, the stored \<^verbatim>\<open>max_size\<close> is \<open>v * 1024\<close> and no other field
  changes. In particular \<^verbatim>\<open>--max_size 1024\<close> stores 1024 * 1024.
\<close>

theorem max_size_kib_to_bytes:
  assumes "strtol arg = (v, end_ptr, 0)" and "end_ptr \<noteq> 0"
    and "LONG_MIN \<le> v * 1024" and "v * 1024 \<le> LONG_MAX"
  shows "ret_of (parse_arg len env st (Opt OPT_MAX_SIZE) arg s) = Return 0
    \<and> sint (max_size (opts_of (parse_arg len env st (Opt OPT_MAX_SIZE) arg s))) = v * 1024
    \<and> opts_of (parse_arg len env st (Opt OPT_MAX_SIZE) arg s)
        = s\<lparr>max_size := max_size (opts_of (parse_arg len env st (Opt OPT_MAX_SIZE) arg s))\<rparr>"
  using max_size_accepted [OF assms(1,2)] sint_times_1024_long [OF assms(3,4)] by simp

theorem max_size_kib_to_bytes_witness:
  "strtol ''1024'' = (1024, 4, 0)
   \<and> sint (max_size (opts_of (parse_arg 16 \<lparr>perror_errno = None\<rparr> \<lparr>no_errs = False, no_exit = False\<rparr>
        (Opt OPT_MAX_SIZE) ''1024'' (sa_opts_init 16)))) = 1024 * 1024"
proof -
  have a: "strtol ''1024'' = (1024, 4, 0)" by (rule strtol_1024)
  have b: "(4::nat) \<noteq> 0" by simp
  have c: "LONG_MIN \<le> 1024 * 1024" and d: "(1024::int) * 1024 \<le> LONG_MAX"
    by (simp_all add: LONG_MIN_def LONG_MAX_def)
  from max_size_kib_to_bytes [OF a b c d, of 16 "\<lparr>perror_errno = None\<rparr>" "\<lparr>no_errs = False, no_exit = False\<rparr>" "sa_opts_init 16"]
  have "sint (max_size (opts_of (parse_arg 16 \<lparr>perror_errno = None\<rparr> \<lparr>no_errs = False, no_exit = False\<rparr>
        (Opt OPT_MAX_SIZE) ''1024'' (sa_opts_init 16)))) = 1024 * 1024"
    by (elim conjE)
  with a show ?thesis by (intro conjI)
qed

text \<open>
  C7, as the claim states it, fails: the parser has no check of the sign.
  \<^verbatim>\<open>--max_size -1\<close> is accepted, and the configuration that \<open>parse\<close> returns has the
  size \<open>- 1024\<close>.
\<close>

theorem negative_max_size_counterexample:
  "strtol ''-1'' = (- 1, 2, 0)
   \<and> parse_arg 16 \<lparr>perror_errno = None\<rparr> \<lparr>no_errs = False, no_exit = False\<rparr> (Opt OPT_MAX_SIZE) ''-1'' (sa_opts_init 16)
       = (Return 0, [], (sa_opts_init 16)\<lparr>max_size := - 1024\<rparr>)
   \<and> parse 16 \<lparr>perror_errno = None\<rparr> \<lparr>no_errs = False, no_exit = False\<rparr> [(Opt OPT_MAX_SIZE, ''-1'')]
       = Inr ((sa_opts_init 16)\<lparr>max_size := - 1024\<rparr>)
   \<and> sint (- 1024 :: 64 word) = - 1024"
  by (simp add: strtol_minus_1 parse_def)

text \<open>
  C7, amended. A \<^verbatim>\<open>--max_size\<close> argument that \<^verbatim>\<open>strtol\<close> converts to a negative integer \<open>v\<close>
  with \<open>v * 1024\<close> in the range of \<^verbatim>\<open>long\<close> is not rejected: the option succeeds with no
  output, \<open>parse\<close> returns a configuration, and the stored \<^verbatim>\<open>max_size\<close> is the negative
  number \<open>v * 1024\<close>.
\<close>

theorem negative_max_size_accepted:
  assumes "strtol arg = (v, end_ptr, 0)" and "end_ptr \<noteq> 0"
    and "v < 0" and "LONG_MIN \<le> v * 1024"
  shows "parse_arg len env st (Opt OPT_MAX_SIZE) arg s
           = (Return 0, [], s\<lparr>max_size := word_of_int v * 1024\<rparr>)
    \<and> parse len env st [(Opt OPT_MAX_SIZE, arg)]
           = Inr ((sa_opts_init len)\<lparr>max_size := word_of_int v * 1024\<rparr>)
    \<and> sint (word_of_int v * 1024 :: 64 word) = v * 1024
    \<and> sint (max_size (opts_of (parse_arg len env st (Opt OPT_MAX_SIZE) arg s))) < 0"
proof -
  from assms(3) have "v * 1024 \<le> LONG_MAX" by (simp add: LONG_MAX_def)
  with assms(4) have sv: "sint (word_of_int v * 1024 :: 64 word) = v * 1024"
    by (rule sint_times_1024_long)
  have step: "\<And>t. parse_arg len env st (Opt OPT_MAX_SIZE) arg t
           = (Return 0, [], t\<lparr>max_size := word_of_int v * 1024\<rparr>)"
    using assms(1,2) by (rule max_size_accepted)
  have "parse len env st [(Opt OPT_MAX_SIZE, arg)]
           = Inr ((sa_opts_init len)\<lparr>max_size := word_of_int v * 1024\<rparr>)"
    by (simp add: parse_single step del: parse_arg.simps)
  moreover have "sint (max_size (opts_of (parse_arg len env st (Opt OPT_MAX_SIZE) arg s))) < 0"
    using assms(3) by (simp add: step sv del: parse_arg.simps)
  ultimately show ?thesis using step sv by (intro conjI)
qed

theorem negative_max_size_accepted_witness:
  "strtol ''-1'' = (- 1, 2, 0)
   \<and> ret_of (parse_arg 16 \<lparr>perror_errno = None\<rparr> \<lparr>no_errs = False, no_exit = False\<rparr> (Opt OPT_MAX_SIZE) ''-1'' (sa_opts_init 16)) = Return 0
   \<and> sint (max_size (opts_of (parse_arg 16 \<lparr>perror_errno = None\<rparr> \<lparr>no_errs = False, no_exit = False\<rparr>
        (Opt OPT_MAX_SIZE) ''-1'' (sa_opts_init 16)))) < 0"
proof -
  have a: "strtol ''-1'' = (- 1, 2, 0)" by (rule strtol_minus_1)
  have b: "(2::nat) \<noteq> 0" by simp
  have c: "(- 1 :: int) < 0" by simp
  have d: "LONG_MIN \<le> - 1 * 1024" by (simp add: LONG_MIN_def)
  note t = negative_max_size_accepted [OF a b c d, of 16 "\<lparr>perror_errno = None\<rparr>" "\<lparr>no_errs = False, no_exit = False\<rparr>" "sa_opts_init 16"]
  from t have "parse_arg 16 \<lparr>perror_errno = None\<rparr> \<lparr>no_errs = False, no_exit = False\<rparr> (Opt OPT_MAX_SIZE) ''-1'' (sa_opts_init 16)
           = (Return 0, [], (sa_opts_init 16)\<lparr>max_size := word_of_int (- 1) * 1024\<rparr>)"
    by (rule conjunct1)
  then have r: "ret_of (parse_arg 16 \<lparr>perror_errno = None\<rparr> \<lparr>no_errs = False, no_exit = False\<rparr> (Opt OPT_MAX_SIZE) ''-1'' (sa_opts_init 16)) = Return 0"
    by (simp only: fst_conv)
  from t have n: "sint (max_size (opts_of (parse_arg 16 \<lparr>perror_errno = None\<rparr> \<lparr>no_errs = False, no_exit = False\<rparr>
        (Opt OPT_MAX_SIZE) ''-1'' (sa_opts_init 16)))) < 0"
    by (elim conjE)
  from a r n show ?thesis by (intro conjI)
qed

subsection \<open>Arguments with no digits\<close>

text \<open>
  C5, as the claim states it, fails: the failure names the option but not the offending
  text. For \<^verbatim>\<open>--max_size abc\<close> the parser writes the fixed line
  \<^verbatim>\<open>max_size: no digits were found\<close> and the usage message, and \<^verbatim>\<open>abc\<close> does not occur in
  what the parser writes; likewise for \<^verbatim>\<open>--pid xyz\<close>.
\<close>

theorem no_digits_message_counterexample:
  "no_digits ''abc''
   \<and> out_of (parse_arg 16 \<lparr>perror_errno = None\<rparr> \<lparr>no_errs = False, no_exit = False\<rparr> (Opt OPT_MAX_SIZE) ''abc'' (sa_opts_init 16))
       = [Fprintf ''max_size: no digits were found\<newline>'', Usage_message]
   \<and> \<not> sublist ''abc'' ''max_size: no digits were found\<newline>''
   \<and> no_digits ''xyz''
   \<and> out_of (parse_arg 16 \<lparr>perror_errno = None\<rparr> \<lparr>no_errs = False, no_exit = False\<rparr> (Opt OPT_FILTER_PID) ''xyz'' (sa_opts_init 16))
       = [Fprintf ''pid: no digits were found\<newline>'', Usage_message]
   \<and> \<not> sublist ''xyz'' ''pid: no digits were found\<newline>''"
  by (simp add: no_digits_abc no_digits_xyz no_digits_max_size no_digits_pid
        abc_not_in_message xyz_not_in_message del: parse_arg.simps)

text \<open>
  C5, amended. For every argument from which \<^verbatim>\<open>strtol\<close> can consume no digit, \<^verbatim>\<open>--max_size\<close>
  and \<^verbatim>\<open>--pid\<close> fail: the parser writes \<^verbatim>\<open>max_size: no digits were found\<close> (or
  \<^verbatim>\<open>pid: no digits were found\<close>), a line that starts with the name of the option in the
  table \<^verbatim>\<open>options\<close> and is the same for every such argument, then calls \<^verbatim>\<open>argp_usage\<close>, and
  the process exits there or the parser returns \<^verbatim>\<open>-EINVAL\<close>; \<open>parse\<close> returns this failure.
  The failure differs from the one for a value out of range (\<open>big\<close> below): that one is
  reported through \<^verbatim>\<open>perror\<close>, not through this line, and returns the \<^verbatim>\<open>errno\<close> that stands
  after \<^verbatim>\<open>perror\<close>, which is \<^verbatim>\<open>ERANGE\<close> or the code that \<^verbatim>\<open>perror\<close> left; error codes being
  positive, it is never \<^verbatim>\<open>-EINVAL\<close>. The offending text is not reported.
\<close>

theorem no_digits_error:
  assumes "no_digits arg"
    and "case perror_errno env of None \<Rightarrow> True | Some e \<Rightarrow> 0 < e"
  shows
   "parse_arg len env st (Opt OPT_MAX_SIZE) arg s =
      (if no_errs st \<or> no_exit st then Return (- EINVAL) else Exit_usage,
       Fprintf ''max_size: no digits were found\<newline>'' # (if no_errs st then [] else [Usage_message]),
       s\<lparr>max_size := 0\<rparr>)
    \<and> parse_arg len env st (Opt OPT_FILTER_PID) arg s =
      (if no_errs st \<or> no_exit st then Return (- EINVAL) else Exit_usage,
       Fprintf ''pid: no digits were found\<newline>'' # (if no_errs st then [] else [Usage_message]),
       s\<lparr>pid := 0\<rparr>)
    \<and> parse len env st [(Opt OPT_MAX_SIZE, arg)] =
      Inl (if no_errs st \<or> no_exit st then Return (- EINVAL) else Exit_usage,
           Fprintf ''max_size: no digits were found\<newline>'' # (if no_errs st then [] else [Usage_message]))
    \<and> parse len env st [(Opt OPT_FILTER_PID, arg)] =
      Inl (if no_errs st \<or> no_exit st then Return (- EINVAL) else Exit_usage,
           Fprintf ''pid: no digits were found\<newline>'' # (if no_errs st then [] else [Usage_message]))
    \<and> (if snd (snd (strtol big)) = ERANGE
        then parse_arg len env st (Opt OPT_MAX_SIZE) big s =
               (Return (case perror_errno env of None \<Rightarrow> ERANGE | Some e \<Rightarrow> e),
                [Perror ''Unsupported max_size value\<newline>'' ERANGE],
                s\<lparr>max_size := word_of_int (fst (strtol big)) * 1024\<rparr>)
           \<and> parse_arg len env st (Opt OPT_FILTER_PID) big s =
               (Return (case perror_errno env of None \<Rightarrow> ERANGE | Some e \<Rightarrow> e),
                [Perror ''Unsupported pid value\<newline>'' ERANGE],
                s\<lparr>pid := word_of_int (fst (strtol big))\<rparr>)
           \<and> ret_of (parse_arg len env st (Opt OPT_MAX_SIZE) arg s)
               \<noteq> ret_of (parse_arg len env st (Opt OPT_MAX_SIZE) big s)
           \<and> ret_of (parse_arg len env st (Opt OPT_FILTER_PID) arg s)
               \<noteq> ret_of (parse_arg len env st (Opt OPT_FILTER_PID) big s)
           \<and> out_of (parse_arg len env st (Opt OPT_MAX_SIZE) arg s)
               \<noteq> out_of (parse_arg len env st (Opt OPT_MAX_SIZE) big s)
           \<and> out_of (parse_arg len env st (Opt OPT_FILTER_PID) arg s)
               \<noteq> out_of (parse_arg len env st (Opt OPT_FILTER_PID) big s)
        else snd (snd (strtol big)) = 0)
    \<and> option_key ''max_size'' = Some OPT_MAX_SIZE
    \<and> prefix ''max_size'' ''max_size: no digits were found\<newline>''
    \<and> option_key ''pid'' = Some OPT_FILTER_PID
    \<and> prefix ''pid'' ''pid: no digits were found\<newline>''"
proof -
  note a = no_digits_max_size [OF assms(1), of len env st s]
    and b = no_digits_pid [OF assms(1), of len env st s]
  let ?nd = "if no_errs st \<or> no_exit st then Return (- EINVAL) else Exit_usage"
  let ?after = "case perror_errno env of None \<Rightarrow> ERANGE | Some e \<Rightarrow> e"
  have pos: "0 < ?after"
    using assms(2) by (simp add: ERANGE_def split: option.splits)
  have ne: "?nd \<noteq> Return 0" by (simp add: EINVAL_def)
  have ne': "?nd \<noteq> Return ?after"
    using pos by (auto simp: EINVAL_def)
  have c: "parse len env st [(Opt OPT_MAX_SIZE, arg)] =
      Inl (?nd, Fprintf ''max_size: no digits were found\<newline>'' # (if no_errs st then [] else [Usage_message]))"
    unfolding parse_single no_digits_max_size [OF assms(1)] using ne by simp
  have d: "parse len env st [(Opt OPT_FILTER_PID, arg)] =
      Inl (?nd, Fprintf ''pid: no digits were found\<newline>'' # (if no_errs st then [] else [Usage_message]))"
    unfolding parse_single no_digits_pid [OF assms(1)] using ne by simp
  have e: "(if snd (snd (strtol big)) = ERANGE
        then parse_arg len env st (Opt OPT_MAX_SIZE) big s =
               (Return ?after,
                [Perror ''Unsupported max_size value\<newline>'' ERANGE],
                s\<lparr>max_size := word_of_int (fst (strtol big)) * 1024\<rparr>)
           \<and> parse_arg len env st (Opt OPT_FILTER_PID) big s =
               (Return ?after,
                [Perror ''Unsupported pid value\<newline>'' ERANGE],
                s\<lparr>pid := word_of_int (fst (strtol big))\<rparr>)
           \<and> ret_of (parse_arg len env st (Opt OPT_MAX_SIZE) arg s)
               \<noteq> ret_of (parse_arg len env st (Opt OPT_MAX_SIZE) big s)
           \<and> ret_of (parse_arg len env st (Opt OPT_FILTER_PID) arg s)
               \<noteq> ret_of (parse_arg len env st (Opt OPT_FILTER_PID) big s)
           \<and> out_of (parse_arg len env st (Opt OPT_MAX_SIZE) arg s)
               \<noteq> out_of (parse_arg len env st (Opt OPT_MAX_SIZE) big s)
           \<and> out_of (parse_arg len env st (Opt OPT_FILTER_PID) arg s)
               \<noteq> out_of (parse_arg len env st (Opt OPT_FILTER_PID) big s)
        else snd (snd (strtol big)) = 0)"
  proof (cases "snd (snd (strtol big)) = ERANGE")
    case True
    note o1 = overflow_max_size [OF True, of len env st s]
      and o2 = overflow_pid [OF True, of len env st s]
    show ?thesis unfolding a b o1 o2 using True ne' by simp
  next
    case False
    with strtol_errno [of big] show ?thesis by simp
  qed
  have f: "option_key ''max_size'' = Some OPT_MAX_SIZE" "option_key ''pid'' = Some OPT_FILTER_PID"
    by (simp_all add: option_key_def options_def)
  have g: "prefix ''max_size'' ''max_size: no digits were found\<newline>''"
      "prefix ''pid'' ''pid: no digits were found\<newline>''"
    by simp_all
  from a b c d e f g show ?thesis by (intro conjI)
qed

text \<open>
  The witness takes the environment in which \<^verbatim>\<open>perror\<close> leaves \<^verbatim>\<open>EINVAL\<close> (22) in \<^verbatim>\<open>errno\<close>
  and the flag \<^verbatim>\<open>ARGP_NO_EXIT\<close>: the text with no digits returns -22, the value out of
  range returns 22.
\<close>

theorem no_digits_error_witness:
  "no_digits ''abc''
   \<and> strtol ''99999999999999999999'' = (LONG_MAX, 20, ERANGE)
   \<and> parse 16 \<lparr>perror_errno = Some 22\<rparr> \<lparr>no_errs = False, no_exit = True\<rparr>
        [(Opt OPT_MAX_SIZE, ''abc'')]
       = Inl (Return (- 22), [Fprintf ''max_size: no digits were found\<newline>'', Usage_message])
   \<and> parse 16 \<lparr>perror_errno = Some 22\<rparr> \<lparr>no_errs = False, no_exit = True\<rparr>
        [(Opt OPT_FILTER_PID, ''abc'')]
       = Inl (Return (- 22), [Fprintf ''pid: no digits were found\<newline>'', Usage_message])
   \<and> ret_of (parse_arg 16 \<lparr>perror_errno = Some 22\<rparr> \<lparr>no_errs = False, no_exit = True\<rparr>
        (Opt OPT_MAX_SIZE) ''99999999999999999999'' (sa_opts_init 16)) = Return 22
   \<and> ret_of (parse_arg 16 \<lparr>perror_errno = Some 22\<rparr> \<lparr>no_errs = False, no_exit = True\<rparr>
        (Opt OPT_MAX_SIZE) ''abc'' (sa_opts_init 16))
       \<noteq> ret_of (parse_arg 16 \<lparr>perror_errno = Some 22\<rparr> \<lparr>no_errs = False, no_exit = True\<rparr>
             (Opt OPT_MAX_SIZE) ''99999999999999999999'' (sa_opts_init 16))"
proof -
  let ?env = "\<lparr>perror_errno = Some 22\<rparr>"
  let ?st = "\<lparr>no_errs = False, no_exit = True\<rparr>"
  have h: "no_digits ''abc''" by (rule no_digits_abc)
  have k: "case perror_errno ?env of None \<Rightarrow> True | Some e \<Rightarrow> 0 < e" by simp
  have big: "strtol ''99999999999999999999'' = (LONG_MAX, 20, ERANGE)" by (rule strtol_big)
  then have er: "snd (snd (strtol ''99999999999999999999'')) = ERANGE" by simp
  note t = no_digits_error [OF h k, of 16 ?st "sa_opts_init 16" "''99999999999999999999''"]
  from t have c: "parse 16 ?env ?st [(Opt OPT_MAX_SIZE, ''abc'')]
       = Inl (Return (- 22), [Fprintf ''max_size: no digits were found\<newline>'', Usage_message])"
    by (simp add: EINVAL_def)
  from t have d: "parse 16 ?env ?st [(Opt OPT_FILTER_PID, ''abc'')]
       = Inl (Return (- 22), [Fprintf ''pid: no digits were found\<newline>'', Usage_message])"
    by (simp add: EINVAL_def)
  from t er have o: "ret_of (parse_arg 16 ?env ?st (Opt OPT_MAX_SIZE) ''99999999999999999999''
        (sa_opts_init 16)) = Return 22"
    by (simp del: parse_arg.simps)
  from t er have e: "ret_of (parse_arg 16 ?env ?st (Opt OPT_MAX_SIZE) ''abc'' (sa_opts_init 16))
       \<noteq> ret_of (parse_arg 16 ?env ?st (Opt OPT_MAX_SIZE) ''99999999999999999999'' (sa_opts_init 16))"
    by (simp add: EINVAL_def del: parse_arg.simps)
  from h big c d o e show ?thesis by (intro conjI)
qed

subsection \<open>A failing call\<close>

text \<open>
  C6, as the claim states it, fails: both numeric options assign the field before they
  test the conversion. \<^verbatim>\<open>--max_size 99999999999999999999\<close> fails (with \<^verbatim>\<open>ERANGE\<close>, in an
  environment where \<^verbatim>\<open>perror\<close> leaves \<^verbatim>\<open>errno\<close> alone) and has
  already replaced the size of 250 MiB by \<open>- 1024\<close>; \<^verbatim>\<open>--pid xyz\<close> fails and has already
  replaced the pid 42 by 0.
\<close>

theorem failure_mutates_counterexample:
  "parse_arg 16 \<lparr>perror_errno = None\<rparr> \<lparr>no_errs = False, no_exit = False\<rparr> (Opt OPT_MAX_SIZE)
       ''99999999999999999999'' (sa_opts_init 16)
     = (Return ERANGE, [Perror ''Unsupported max_size value\<newline>'' ERANGE],
        (sa_opts_init 16)\<lparr>max_size := - 1024\<rparr>)
   \<and> max_size (sa_opts_init 16) = 262144000
   \<and> Return ERANGE \<noteq> Return 0
   \<and> (sa_opts_init 16)\<lparr>max_size := - 1024\<rparr> \<noteq> sa_opts_init 16
   \<and> parse_arg 16 \<lparr>perror_errno = None\<rparr> \<lparr>no_errs = False, no_exit = True\<rparr> (Opt OPT_FILTER_PID) ''xyz''
        ((sa_opts_init 16)\<lparr>pid := 42\<rparr>)
     = (Return (- EINVAL), [Fprintf ''pid: no digits were found\<newline>'', Usage_message],
        (sa_opts_init 16)\<lparr>pid := 0\<rparr>)"
proof -
  have a: "parse_arg 16 \<lparr>perror_errno = None\<rparr> \<lparr>no_errs = False, no_exit = False\<rparr> (Opt OPT_MAX_SIZE)
       ''99999999999999999999'' (sa_opts_init 16)
     = (Return ERANGE, [Perror ''Unsupported max_size value\<newline>'' ERANGE],
        (sa_opts_init 16)\<lparr>max_size := - 1024\<rparr>)"
    by (simp add: strtol_big perror_def ERANGE_def LONG_MAX_def)
  have b: "max_size (sa_opts_init 16) = 262144000" by (simp add: sa_opts_init_def)
  have c: "Return ERANGE \<noteq> Return 0" by (simp add: ERANGE_def)
  have d: "(sa_opts_init 16)\<lparr>max_size := - 1024\<rparr> \<noteq> sa_opts_init 16"
  proof
    assume "(sa_opts_init 16)\<lparr>max_size := - 1024\<rparr> = sa_opts_init 16"
    then have "max_size ((sa_opts_init 16)\<lparr>max_size := - 1024\<rparr>) = max_size (sa_opts_init 16)"
      by (rule arg_cong)
    then show False by (simp add: sa_opts_init_def)
  qed
  have e: "parse_arg 16 \<lparr>perror_errno = None\<rparr> \<lparr>no_errs = False, no_exit = True\<rparr> (Opt OPT_FILTER_PID) ''xyz''
        ((sa_opts_init 16)\<lparr>pid := 42\<rparr>)
     = (Return (- EINVAL), [Fprintf ''pid: no digits were found\<newline>'', Usage_message],
        (sa_opts_init 16)\<lparr>pid := 0\<rparr>)"
    by (simp add: strtol_no_digits [OF no_digits_xyz] argp_usage_def)
  from a b c d e show ?thesis by (intro conjI)
qed

text \<open>
  C6, amended. When a call of the parser fails after the calls before it succeeded, the
  parse aborts: no later call is made and \<open>parse\<close> returns the failure, not a
  configuration. The configuration under construction is as it was before the call,
  except that a failing \<^verbatim>\<open>--max_size\<close> has already stored the converted value times 1024
  in \<^verbatim>\<open>max_size\<close>, and a failing \<^verbatim>\<open>--pid\<close> has already stored the converted value in
  \<^verbatim>\<open>pid\<close>.
\<close>

theorem failure_aborts_parse:
  assumes "run len env st before (sa_opts_init len) = (Return 0, out0, s)"
    and "ret_of (parse_arg len env st key arg s) \<noteq> Return 0"
  shows "parse len env st (before @ (key, arg) # rest)
           = Inl (ret_of (parse_arg len env st key arg s), out0 @ out_of (parse_arg len env st key arg s))
    \<and> run len env st ((key, arg) # rest) s = parse_arg len env st key arg s
    \<and> opts_of (parse_arg len env st key arg s) =
           (if key = Opt OPT_MAX_SIZE then s\<lparr>max_size := word_of_int (fst (strtol arg)) * 1024\<rparr>
            else if key = Opt OPT_FILTER_PID then s\<lparr>pid := word_of_int (fst (strtol arg))\<rparr>
            else s)"
  using parse_fails [OF assms] run_Cons_fail [OF assms(2)] parse_arg_failure_frame [OF assms(2)]
  by (intro conjI)

theorem failure_aborts_parse_witness:
  "run 16 \<lparr>perror_errno = None\<rparr> \<lparr>no_errs = False, no_exit = False\<rparr> [(Opt OPT_APP, [])] (sa_opts_init 16)
     = (Return 0, [], (sa_opts_init 16)\<lparr>system := False, app := True\<rparr>)
   \<and> ret_of (parse_arg 16 \<lparr>perror_errno = None\<rparr> \<lparr>no_errs = False, no_exit = False\<rparr> (Opt OPT_MAX_SIZE)
        ''99999999999999999999'' ((sa_opts_init 16)\<lparr>system := False, app := True\<rparr>)) \<noteq> Return 0
   \<and> parse 16 \<lparr>perror_errno = None\<rparr> \<lparr>no_errs = False, no_exit = False\<rparr>
        [(Opt OPT_APP, []), (Opt OPT_MAX_SIZE, ''99999999999999999999''), (Opt OPT_LOAD_AVG, [])]
       = Inl (Return ERANGE, [Perror ''Unsupported max_size value\<newline>'' ERANGE])"
proof -
  let ?st = "\<lparr>no_errs = False, no_exit = False\<rparr>"
  let ?s = "(sa_opts_init 16)\<lparr>system := False, app := True\<rparr>"
  have a: "run 16 \<lparr>perror_errno = None\<rparr> ?st [(Opt OPT_APP, [])] (sa_opts_init 16) = (Return 0, [], ?s)"
    by simp
  have p: "parse_arg 16 \<lparr>perror_errno = None\<rparr> ?st (Opt OPT_MAX_SIZE) ''99999999999999999999'' ?s
     = (Return ERANGE, [Perror ''Unsupported max_size value\<newline>'' ERANGE],
        ?s\<lparr>max_size := word_of_int LONG_MAX * 1024\<rparr>)"
    by (simp add: strtol_big perror_def ERANGE_def)
  have b: "ret_of (parse_arg 16 \<lparr>perror_errno = None\<rparr> ?st (Opt OPT_MAX_SIZE) ''99999999999999999999'' ?s) \<noteq> Return 0"
    unfolding p by (simp add: ERANGE_def)
  from failure_aborts_parse [OF a b, of "[(Opt OPT_LOAD_AVG, [])]"]
  have "parse 16 \<lparr>perror_errno = None\<rparr> ?st ([(Opt OPT_APP, [])] @ (Opt OPT_MAX_SIZE, ''99999999999999999999'') # [(Opt OPT_LOAD_AVG, [])])
       = Inl (ret_of (parse_arg 16 \<lparr>perror_errno = None\<rparr> ?st (Opt OPT_MAX_SIZE) ''99999999999999999999'' ?s),
              [] @ out_of (parse_arg 16 \<lparr>perror_errno = None\<rparr> ?st (Opt OPT_MAX_SIZE) ''99999999999999999999'' ?s))"
    by (rule conjunct1)
  then have c: "parse 16 \<lparr>perror_errno = None\<rparr> ?st
        [(Opt OPT_APP, []), (Opt OPT_MAX_SIZE, ''99999999999999999999''), (Opt OPT_LOAD_AVG, [])]
       = Inl (Return ERANGE, [Perror ''Unsupported max_size value\<newline>'' ERANGE])"
    unfolding p by simp
  from a b c show ?thesis by (intro conjI)
qed

subsection \<open>The name filter\<close>

text \<open>
  C9. With a \<^verbatim>\<open>comm\<close> array of \<open>len\<close> bytes, \<open>len\<close> positive, \<^verbatim>\<open>--comm\<close> succeeds for every
  argument and writes nothing to \<^verbatim>\<open>stderr\<close>; only \<^verbatim>\<open>comm\<close> changes; the array keeps its
  length, its last byte is \<^verbatim>\<open>NUL\<close>, and the string it holds is the argument cut to
  \<open>len - 1\<close> bytes, which is the argument itself when that is not longer than \<open>len - 1\<close>.
\<close>

theorem comm_truncated:
  assumes "0 < len" and "length (comm s) = len"
  shows "ret_of (parse_arg len env st (Opt OPT_FILTER_COMM) arg s) = Return 0
    \<and> out_of (parse_arg len env st (Opt OPT_FILTER_COMM) arg s) = []
    \<and> opts_of (parse_arg len env st (Opt OPT_FILTER_COMM) arg s)
        = s\<lparr>comm := comm (opts_of (parse_arg len env st (Opt OPT_FILTER_COMM) arg s))\<rparr>
    \<and> length (comm (opts_of (parse_arg len env st (Opt OPT_FILTER_COMM) arg s))) = len
    \<and> comm (opts_of (parse_arg len env st (Opt OPT_FILTER_COMM) arg s)) ! (len - 1) = NUL
    \<and> c_str (comm (opts_of (parse_arg len env st (Opt OPT_FILTER_COMM) arg s)))
        = take (len - 1) (c_str arg)
    \<and> (if NUL \<in> set arg then True
        else c_str (comm (opts_of (parse_arg len env st (Opt OPT_FILTER_COMM) arg s)))
               = (if len - 1 < length arg then take (len - 1) arg else arg))"
proof -
  let ?c = "take (len - 1) (c_str arg)"
  let ?pad = "replicate (len - 1 - length ?c) NUL"
  let ?buf = "comm (opts_of (parse_arg len env st (Opt OPT_FILTER_COMM) arg s))"
  have buf: "?buf = ?c @ ?pad @ [NUL]"
    using comm_buffer [OF assms, of arg] by simp
  have nn: "NUL \<notin> set ?c"
    using c_str_no_NUL [of arg] by (auto dest: in_set_takeD)
  have len: "length ?buf = len" using assms(1) unfolding buf by simp
  have last: "?buf ! (len - 1) = NUL"
  proof -
    have "length (?c @ ?pad) = len - 1" by simp
    then have "((?c @ ?pad) @ [NUL]) ! (len - 1) = NUL" by (metis nth_append_length)
    then show ?thesis unfolding buf by simp
  qed
  have str: "c_str ?buf = ?c" unfolding buf using nn by (rule c_str_padded)
  have plain: "if NUL \<in> set arg then True
        else c_str ?buf = (if len - 1 < length arg then take (len - 1) arg else arg)"
    unfolding str by (simp add: c_str_id)
  have r: "ret_of (parse_arg len env st (Opt OPT_FILTER_COMM) arg s) = Return 0"
       "out_of (parse_arg len env st (Opt OPT_FILTER_COMM) arg s) = []"
       "opts_of (parse_arg len env st (Opt OPT_FILTER_COMM) arg s) = s\<lparr>comm := ?buf\<rparr>"
    by simp_all
  from r len last str plain show ?thesis by (intro conjI)
qed

theorem comm_truncated_witness:
  "0 < (4::nat) \<and> length (comm (sa_opts_init 4)) = 4
   \<and> comm (opts_of (parse_arg 4 \<lparr>perror_errno = None\<rparr> \<lparr>no_errs = False, no_exit = False\<rparr> (Opt OPT_FILTER_COMM)
        ''kworker'' (sa_opts_init 4))) = ''kwo'' @ [NUL]
   \<and> c_str (comm (opts_of (parse_arg 4 \<lparr>perror_errno = None\<rparr> \<lparr>no_errs = False, no_exit = False\<rparr> (Opt OPT_FILTER_COMM)
        ''kworker'' (sa_opts_init 4)))) = ''kwo''
   \<and> comm (opts_of (parse_arg 4 \<lparr>perror_errno = None\<rparr> \<lparr>no_errs = False, no_exit = False\<rparr> (Opt OPT_FILTER_COMM)
        ''kworker'' (sa_opts_init 4))) ! 3 = NUL"
proof -
  let ?st = "\<lparr>no_errs = False, no_exit = False\<rparr>"
  have a: "0 < (4::nat)" by simp
  have b: "length (comm (sa_opts_init 4)) = 4" by (simp add: sa_opts_init_def)
  have e: "comm (opts_of (parse_arg 4 \<lparr>perror_errno = None\<rparr> ?st (Opt OPT_FILTER_COMM) ''kworker'' (sa_opts_init 4)))
      = ''kwo'' @ [NUL]"
    by (simp add: sa_opts_init_def strncpy_def c_str_def NUL_def)
  note t = comm_truncated [OF a b, of "\<lparr>perror_errno = None\<rparr>" ?st "''kworker''"]
  from t have c: "c_str (comm (opts_of (parse_arg 4 \<lparr>perror_errno = None\<rparr> ?st (Opt OPT_FILTER_COMM) ''kworker'' (sa_opts_init 4))))
      = take (4 - 1) (c_str ''kworker'')"
    by (elim conjE)
  have "take (4 - 1) (c_str ''kworker'') = ''kwo''" by (simp add: c_str_def NUL_def)
  with c have c': "c_str (comm (opts_of (parse_arg 4 \<lparr>perror_errno = None\<rparr> ?st (Opt OPT_FILTER_COMM) ''kworker'' (sa_opts_init 4))))
      = ''kwo''" by (rule trans)
  from t have "comm (opts_of (parse_arg 4 \<lparr>perror_errno = None\<rparr> ?st (Opt OPT_FILTER_COMM) ''kworker'' (sa_opts_init 4))) ! (4 - 1) = NUL"
    by (elim conjE)
  then have d: "comm (opts_of (parse_arg 4 \<lparr>perror_errno = None\<rparr> ?st (Opt OPT_FILTER_COMM) ''kworker'' (sa_opts_init 4))) ! 3 = NUL"
    by (simp del: parse_arg.simps)
  from a b e c' d show ?thesis by (intro conjI)
qed

end
